theory Spec2Isabelle
  imports Complex_Main
begin

section \<open>Python values and exceptions\<close>

text \<open>
  The program is a single script, \<^verbatim>\<open>app.py\<close>. It calls four libraries whose code is
  not part of the repository: the XML parser (\<^verbatim>\<open>xml.etree.ElementTree\<close>), \<^verbatim>\<open>zipfile\<close>,
  \<^verbatim>\<open>ezdxf\<close> and the builtin \<^verbatim>\<open>float\<close>. What these calls return on a given byte
  string is a parameter of the model: \<open>et_parse\<close>, \<open>zip_open\<close>, \<open>ezdxf\<close> and \<open>to_float\<close>.
  Everything the script itself does with the returned values is modelled below.

  Strings are lists of characters; a character stands for a code point below 256.
  Raw file contents are byte strings, which the script never inspects.
\<close>

type_synonym bytes = string

text \<open>
  Exceptions. Every constructor is a subclass of Python's \<^verbatim>\<open>Exception\<close>, so that
  \<^verbatim>\<open>except Exception\<close> catches all of them, while \<^verbatim>\<open>except zipfile.BadZipFile\<close>
  catches only the second one.
\<close>

datatype exn = ParseError | BadZipFile | OtherError string

subsection \<open>String methods\<close>

text \<open>\<^verbatim>\<open>str.isspace\<close> on one character (code points below 256).\<close>

definition py_isspace :: "char \<Rightarrow> bool" where
  "py_isspace c = (of_char c \<in> {9, 10, 11, 12, 13, 28, 29, 30, 31, 32, 133, 160 :: nat})"

text \<open>\<^verbatim>\<open>s.strip()\<close>: whitespace removed at both ends.\<close>

definition py_strip :: "string \<Rightarrow> string" where
  "py_strip s = rev (dropWhile py_isspace (rev (dropWhile py_isspace s)))"

text \<open>
  \<^verbatim>\<open>s.split()\<close> without separator: the maximal runs of non-whitespace characters, in
  order. The first argument is the token being read.
\<close>

fun split_ws :: "string \<Rightarrow> string \<Rightarrow> string list" where
  "split_ws cur [] = (if cur = [] then [] else [cur])"
| "split_ws cur (c # cs) =
     (if py_isspace c then (if cur = [] then split_ws [] cs else cur # split_ws [] cs)
      else split_ws (cur @ [c]) cs)"

definition py_split :: "string \<Rightarrow> string list" where
  "py_split s = split_ws [] s"

text \<open>\<^verbatim>\<open>s.split(c)[0]\<close> for a one-character separator: the part before its first occurrence.\<close>

definition py_split_first :: "char \<Rightarrow> string \<Rightarrow> string" where
  "py_split_first c s = takeWhile (\<lambda>d. d \<noteq> c) s"

text \<open>\<^verbatim>\<open>s.strip(c)\<close> for a one-character set: that character removed at both ends.\<close>

definition py_strip_char :: "char \<Rightarrow> string \<Rightarrow> string" where
  "py_strip_char c s = rev (dropWhile (\<lambda>d. d = c) (rev (dropWhile (\<lambda>d. d = c) s)))"

text \<open>\<^verbatim>\<open>s.lower()\<close>: the upper-case letters below code point 256 are shifted by 32.\<close>

definition py_lower_char :: "char \<Rightarrow> char" where
  "py_lower_char c =
     (let n = (of_char c :: nat)
      in if (65 \<le> n \<and> n \<le> 90) \<or> (192 \<le> n \<and> n \<le> 222 \<and> n \<noteq> 215)
         then char_of (n + 32) else c)"

definition py_lower :: "string \<Rightarrow> string" where
  "py_lower s = map py_lower_char s"

text \<open>\<^verbatim>\<open>s.endswith(suffix)\<close>.\<close>

definition py_endswith :: "string \<Rightarrow> string \<Rightarrow> bool" where
  "py_endswith s suffix =
     (length suffix \<le> length s \<and> drop (length s - length suffix) s = suffix)"

section \<open>The point table\<close>

text \<open>
  One row of the table: the dictionary appended to \<^verbatim>\<open>rows\<close> by the parsers. The type
  \<open>'f\<close> is Python's \<^verbatim>\<open>float\<close>.
\<close>

record 'f point_row =
  Name :: string
  Easting :: 'f
  Northing :: 'f
  Elevation :: 'f
  Source :: string

text \<open>A \<^verbatim>\<open>pandas.DataFrame\<close>: its column labels and its rows in index order.\<close>

record 'f data_frame =
  columns :: "string list"
  rows :: "'f point_row list"

definition point_columns :: "string list" where
  "point_columns = [''Name'', ''Easting'', ''Northing'', ''Elevation'', ''Source'']"

text \<open>
  \<^verbatim>\<open>pd.DataFrame(rows)\<close> for a non-empty list of the dictionaries above: the columns are
  the dictionary keys in insertion order.
\<close>

definition pd_DataFrame :: "'f point_row list \<Rightarrow> 'f data_frame" where
  "pd_DataFrame rs = \<lparr>columns = point_columns, rows = rs\<rparr>"

text \<open>\<^verbatim>\<open>pd.DataFrame(columns=cols)\<close>: no rows.\<close>

definition pd_DataFrame_columns :: "string list \<Rightarrow> 'f data_frame" where
  "pd_DataFrame_columns cols = \<lparr>columns = cols, rows = []\<rparr>"

text \<open>\<^verbatim>\<open>df.empty\<close>: some axis has length zero.\<close>

definition df_empty :: "'f data_frame \<Rightarrow> bool" where
  "df_empty df = (rows df = [] \<or> columns df = [])"

text \<open>
  \<^verbatim>\<open>pd.concat(frames, ignore_index=True)\<close>: the rows of the frames one after the other,
  under the union of their columns in order of first appearance.
\<close>

fun union_columns :: "string list \<Rightarrow> string list \<Rightarrow> string list" where
  "union_columns acc [] = acc"
| "union_columns acc (c # cs) =
     (if c \<in> set acc then union_columns acc cs else union_columns (acc @ [c]) cs)"

definition pd_concat :: "'f data_frame list \<Rightarrow> 'f data_frame" where
  "pd_concat frames =
     \<lparr>columns = union_columns [] (concat (map columns frames)),
      rows = concat (map rows frames)\<rparr>"

section \<open>LandXML\<close>

subsection \<open>The element tree\<close>

text \<open>
  An \<^verbatim>\<open>Element\<close> of \<^verbatim>\<open>xml.etree.ElementTree\<close>: the tag in the library's notation
  (\<^verbatim>\<open>{uri}local\<close> for a name in a namespace, \<^verbatim>\<open>local\<close> otherwise), the attributes, the
  text before the first child (\<open>None\<close> when there is none) and the children.
\<close>

datatype element =
  Element (tag: string) (attrib: "(string \<times> string) list") (etext: "string option")
    (children: "element list")

text \<open>\<^verbatim>\<open>elem.get(key, default)\<close>.\<close>

definition elem_get :: "element \<Rightarrow> string \<Rightarrow> string \<Rightarrow> string" where
  "elem_get e key dflt = (case map_of (attrib e) key of None \<Rightarrow> dflt | Some v \<Rightarrow> v)"

text \<open>\<^verbatim>\<open>elem.iter()\<close>: the element and everything below it, in document order.\<close>

fun elem_iter :: "element \<Rightarrow> element list" where
  "elem_iter (Element t a x cs) = Element t a x cs # concat (map elem_iter cs)"

text \<open>The elements below the element \<open>rt\<close>, without \<open>rt\<close> itself, in document order.\<close>

definition descendants :: "element \<Rightarrow> element list" where
  "descendants rt = concat (map elem_iter (children rt))"

text \<open>
  \<^verbatim>\<open>root.findall(".//lx:CgPoint", {"lx": ns_uri})\<close>. The library replaces the prefix by
  the URI, giving the tag \<^verbatim>\<open>{ns_uri}CgPoint\<close>, and selects among the descendants of
  the root \<open>rt\<close>, in document order:
  \<^item> for a tag starting with \<^verbatim>\<open>{*}\<close>, the elements named \<^verbatim>\<open>CgPoint\<close> in any or no
    namespace;
  \<^item> for a tag starting with \<^verbatim>\<open>{}\<close>, the elements whose tag is \<^verbatim>\<open>CgPoint\<close>;
  \<^item> otherwise the elements whose tag is \<^verbatim>\<open>{ns_uri}CgPoint\<close>.
\<close>

definition findall_CgPoint :: "string \<Rightarrow> element \<Rightarrow> element list" where
  "findall_CgPoint ns_uri rt =
     (let qtag = ''{'' @ ns_uri @ ''}CgPoint''
      in if take 3 qtag = ''{*}''
         then filter (\<lambda>e. tag e = drop 3 qtag \<or> py_endswith (tag e) (drop 2 qtag))
                (descendants rt)
         else if take 2 qtag = ''{}''
         then filter (\<lambda>e. tag e = drop 2 qtag) (descendants rt)
         else filter (\<lambda>e. tag e = qtag) (descendants rt))"

subsection \<open>parse_landxml_points\<close>

text \<open>
  The tokens of an element, \<^verbatim>\<open>(cg.text or "").strip().split()\<close>, and the body of the
  loop over the selected elements: \<open>rs\<close> is the list \<^verbatim>\<open>rows\<close> before the iteration,
  the result is the list after it. \<open>to_float\<close> is the builtin \<^verbatim>\<open>float\<close> on a string,
  \<open>None\<close> standing for \<^verbatim>\<open>ValueError\<close>.
\<close>

definition cg_tokens :: "element \<Rightarrow> string list" where
  "cg_tokens cg = py_split (py_strip (case etext cg of None \<Rightarrow> '''' | Some t \<Rightarrow> t))"

definition cgpoint_step ::
  "(string \<Rightarrow> 'f option) \<Rightarrow> 'f point_row list \<Rightarrow> element \<Rightarrow> 'f point_row list" where
  "cgpoint_step to_float rs cg =
     (let name = elem_get cg ''name'' '''';
          toks = cg_tokens cg
      in if length toks \<ge> 3 then
           (case to_float (toks ! 0) of
              None \<Rightarrow> rs
            | Some easting \<Rightarrow>
               (case to_float (toks ! 1) of
                  None \<Rightarrow> rs
                | Some northing \<Rightarrow>
                   (case to_float (toks ! 2) of
                      None \<Rightarrow> rs
                    | Some elev \<Rightarrow>
                        rs @ [\<lparr>Name = name, Easting = easting, Northing = northing,
                               Elevation = elev, Source = ''LandXML''\<rparr>])))
         else rs)"

text \<open>The namespace computed from the root \<open>rt\<close>: \<^verbatim>\<open>root.tag.split('}')[0].strip('{')\<close>.\<close>

definition ns_uri_of :: "element \<Rightarrow> string" where
  "ns_uri_of rt = py_strip_char (CHR ''{'') (py_split_first (CHR ''}'') (tag rt))"

text \<open>
  \<open>et_parse\<close> is \<^verbatim>\<open>ET.parse(io.BytesIO(xml_bytes)).getroot()\<close>: the root element, or the
  exception raised for input that is not well-formed.
\<close>

definition parse_landxml_points ::
  "(bytes \<Rightarrow> exn + element) \<Rightarrow> (string \<Rightarrow> 'f option) \<Rightarrow> bytes \<Rightarrow> exn + 'f data_frame" where
  "parse_landxml_points et_parse to_float xml_bytes =
     (case et_parse xml_bytes of
        Inl e \<Rightarrow> Inl e
      | Inr rt \<Rightarrow>
          (let ns_uri = ns_uri_of rt;
               rs = foldl (cgpoint_step to_float) [] (findall_CgPoint ns_uri rt)
           in if rs \<noteq> [] then Inr (pd_DataFrame rs)
              else Inr (pd_DataFrame_columns point_columns)))"

section \<open>DXF\<close>

text \<open>
  What the script reads of an \<^verbatim>\<open>ezdxf\<close> document: the entities of the model space in
  traversal order. A \<^verbatim>\<open>POINT\<close> has \<^verbatim>\<open>dxf.handle\<close> and \<^verbatim>\<open>dxf.location\<close>, an \<^verbatim>\<open>INSERT\<close>
  has \<^verbatim>\<open>dxf.handle\<close>, \<^verbatim>\<open>dxf.name\<close> and \<^verbatim>\<open>dxf.insert\<close>; any other entity is kept with its
  type name.
\<close>

datatype 'f vec3 = Vec3 (vx: 'f) (vy: 'f) (vz: 'f)

datatype 'f dxf_entity =
    POINT (handle: string) (location: "'f vec3")
  | INSERT (handle: string) (block_name: string) (insert_point: "'f vec3")
  | ENTITY (handle: string) (dxftype: string)

datatype 'f drawing = Drawing (modelspace: "'f dxf_entity list")

text \<open>\<^verbatim>\<open>msp.query("POINT")\<close> and \<^verbatim>\<open>msp.query("INSERT")\<close>: the entities of that type, in order.\<close>

definition query_POINT :: "'f dxf_entity list \<Rightarrow> 'f dxf_entity list" where
  "query_POINT msp = filter is_POINT msp"

definition query_INSERT :: "'f dxf_entity list \<Rightarrow> 'f dxf_entity list" where
  "query_INSERT msp = filter is_INSERT msp"

text \<open>The bodies of the two loops; \<^verbatim>\<open>float\<close> of a coordinate that is a float is the coordinate.\<close>

definition point_step :: "'f point_row list \<Rightarrow> 'f dxf_entity \<Rightarrow> 'f point_row list" where
  "point_step rs e =
     (let loc = location e
      in rs @ [\<lparr>Name = ''POINT_'' @ handle e, Easting = vx loc, Northing = vy loc,
                Elevation = vz loc, Source = ''DXF/POINT''\<rparr>])"

definition insert_step :: "'f point_row list \<Rightarrow> 'f dxf_entity \<Rightarrow> 'f point_row list" where
  "insert_step rs e =
     (let ip = insert_point e
      in rs @ [\<lparr>Name = ''BLK_'' @ block_name e @ ''_'' @ handle e, Easting = vx ip,
                Northing = vy ip, Elevation = vz ip, Source = ''DXF/INSERT''\<rparr>])"

text \<open>
  A module as far as the script uses one: its attributes that are called with a byte
  string and return a document or raise. Reading an attribute that the module does not
  have raises \<^verbatim>\<open>AttributeError\<close>.
\<close>

type_synonym 'f py_module = "string \<rightharpoonup> (bytes \<Rightarrow> exn + 'f drawing)"

definition py_getattr ::
  "'f py_module \<Rightarrow> string \<Rightarrow> exn + (bytes \<Rightarrow> exn + 'f drawing)" where
  "py_getattr m attr =
     (case m attr of None \<Rightarrow> Inl (OtherError ''AttributeError'') | Some f \<Rightarrow> Inr f)"

text \<open>
  The functions of the \<^verbatim>\<open>ezdxf\<close> package that read a document are \<^verbatim>\<open>read\<close>, \<^verbatim>\<open>readfile\<close>
  and \<^verbatim>\<open>readzip\<close>; the package has no attribute \<^verbatim>\<open>readmem\<close>. What the three readers
  return is left open.
\<close>

definition ezdxf_package ::
  "(bytes \<Rightarrow> exn + 'f drawing) \<Rightarrow> (bytes \<Rightarrow> exn + 'f drawing) \<Rightarrow>
   (bytes \<Rightarrow> exn + 'f drawing) \<Rightarrow> 'f py_module" where
  "ezdxf_package rd rf rz = [''read'' \<mapsto> rd, ''readfile'' \<mapsto> rf, ''readzip'' \<mapsto> rz]"

text \<open>
  \<open>ezdxf\<close> is the module variable of that name: \<open>None\<close> when the import failed, otherwise
  the module. \<^verbatim>\<open>ezdxf.readmem(dxf_bytes)\<close> reads the attribute and calls it.
\<close>

definition parse_dxf_points ::
  "'f py_module option \<Rightarrow> bytes \<Rightarrow> exn + 'f data_frame" where
  "parse_dxf_points ezdxf dxf_bytes =
     (case ezdxf of
        None \<Rightarrow> Inr (pd_DataFrame_columns point_columns)
      | Some m \<Rightarrow>
          (case py_getattr m ''readmem'' of
             Inl e \<Rightarrow> Inl e
           | Inr readmem \<Rightarrow>
               (case readmem dxf_bytes of
                  Inl e \<Rightarrow> Inl e
                | Inr doc \<Rightarrow>
                    (let msp = modelspace doc;
                         rs1 = foldl point_step [] (query_POINT msp);
                         rs2 = foldl insert_step rs1 (query_INSERT msp)
                     in if rs2 \<noteq> [] then Inr (pd_DataFrame rs2)
                        else Inr (pd_DataFrame_columns point_columns)))))"

section \<open>Leica project files\<close>

text \<open>
  An open \<^verbatim>\<open>zipfile.ZipFile\<close>: its members in the order of the archive's directory, each
  with its name and with what reading it gives, a byte string or an exception. Two
  members may have the same name.
\<close>

datatype zip_file = ZipFile (filelist: "(string \<times> (exn + bytes)) list")

text \<open>\<^verbatim>\<open>zf.namelist()\<close>: the names of the members, in order.\<close>

definition namelist :: "zip_file \<Rightarrow> string list" where
  "namelist zf = map fst (filelist zf)"

text \<open>
  \<^verbatim>\<open>zf.read(name)\<close>: the library looks the name up in a dictionary that each member was
  stored in under its name, so the last member of that name is read; a name that no
  member has raises \<^verbatim>\<open>KeyError\<close>.
\<close>

definition zf_read :: "zip_file \<Rightarrow> string \<Rightarrow> exn + bytes" where
  "zf_read zf name =
     (case filter (\<lambda>m. fst m = name) (filelist zf) of
        [] \<Rightarrow> Inl (OtherError ''KeyError'')
      | m # ms \<Rightarrow> snd (last (m # ms)))"

text \<open>
  The body of the loop over the member names: \<open>frames\<close> is the list \<^verbatim>\<open>rows\<close> of
  tables collected so far. The inner \<^verbatim>\<open>try\<close> turns every exception of the read and of
  the parse into \<^verbatim>\<open>continue\<close>.
\<close>

definition lok_step ::
  "(bytes \<Rightarrow> exn + element) \<Rightarrow> (string \<Rightarrow> 'f option) \<Rightarrow> zip_file \<Rightarrow>
   'f data_frame list \<Rightarrow> string \<Rightarrow> 'f data_frame list" where
  "lok_step et_parse to_float zf frames name =
     (if py_endswith (py_lower name) ''.xml'' then
        (case zf_read zf name of
           Inl e \<Rightarrow> frames
         | Inr xml_bytes \<Rightarrow>
             (case parse_landxml_points et_parse to_float xml_bytes of
                Inl e \<Rightarrow> frames
              | Inr df_xml \<Rightarrow> if \<not> df_empty df_xml then frames @ [df_xml] else frames))
      else frames)"

text \<open>
  \<open>zip_open\<close> is \<^verbatim>\<open>zipfile.ZipFile(io.BytesIO(lok_bytes), "r")\<close>. Of its exceptions only
  \<^verbatim>\<open>BadZipFile\<close> is caught, leaving \<^verbatim>\<open>rows\<close> empty.
\<close>

definition parse_lok_points ::
  "(bytes \<Rightarrow> exn + zip_file) \<Rightarrow> (bytes \<Rightarrow> exn + element) \<Rightarrow> (string \<Rightarrow> 'f option) \<Rightarrow>
   bytes \<Rightarrow> exn + 'f data_frame" where
  "parse_lok_points zip_open et_parse to_float lok_bytes =
     (case zip_open lok_bytes of
        Inl e \<Rightarrow>
          (if e = BadZipFile then Inr (pd_DataFrame_columns point_columns) else Inl e)
      | Inr zf \<Rightarrow>
          (let frames = foldl (lok_step et_parse to_float zf) [] (namelist zf)
           in if frames \<noteq> [] then Inr (pd_concat frames)
              else Inr (pd_DataFrame_columns point_columns)))"

section \<open>Loading a design file\<close>

text \<open>The four library entry points a run of the script depends on.\<close>

record 'f libraries =
  lib_et_parse :: "bytes \<Rightarrow> exn + element"
  lib_to_float :: "string \<Rightarrow> 'f option"
  lib_ezdxf :: "'f py_module option"
  lib_zip_open :: "bytes \<Rightarrow> exn + zip_file"

text \<open>
  The uploaded file: its name and what \<^verbatim>\<open>read()\<close> and \<^verbatim>\<open>getvalue()\<close> return or raise.
\<close>

record uploaded_file =
  uf_name :: string
  uf_read :: "exn + bytes"
  uf_getvalue :: "exn + bytes"

text \<open>What the script shows by calls of the user interface that depend on the data.\<close>

datatype 'f trace =
    Scatter (tr_x: "'f list") (tr_y: "'f list") (tr_mode: string) (tr_text: "string list")
      (tr_textposition: string) (tr_marker_size: nat) (tr_name: string)
  | Scatter3d (tr_x: "'f list") (tr_y: "'f list") (tr_z: "'f list") (tr_mode: string)
      (tr_text: "string list") (tr_textposition: string) (tr_marker_size: nat)
      (tr_name: string)

record 'f figure =
  fig_data :: "'f trace list"
  fig_layout :: "(string \<times> string) list"

datatype 'f ui_call =
    st_error string
  | st_success string
  | st_warning string
  | st_write_head "'f point_row list"
  | st_write_len nat
  | st_plotly_chart "'f figure"
  | st_dataframe "'f data_frame"

text \<open>
  \<^verbatim>\<open>df.reset_index(drop=True)\<close>: the rows are renumbered from zero. A table is its list
  of rows, a row's index is its position, so nothing changes.
\<close>

definition reset_index :: "'f data_frame \<Rightarrow> 'f data_frame" where
  "reset_index df = df"

text \<open>
  \<^verbatim>\<open>load_design_file\<close> returns the messages it showed and the table, where \<open>None\<close> is
  Python's \<^verbatim>\<open>None\<close>; or it raises.
\<close>

definition load_design_file ::
  "'f libraries \<Rightarrow> uploaded_file option \<Rightarrow> exn + ('f ui_call list \<times> 'f data_frame option)" where
  "load_design_file lib uploaded_file =
     (case uploaded_file of
        None \<Rightarrow> Inr ([], None)
      | Some f \<Rightarrow>
          (let fname = py_lower (uf_name f)
           in case (case uf_read f of Inl e \<Rightarrow> uf_getvalue f | Inr raw \<Rightarrow> Inr raw) of
                Inl e \<Rightarrow> Inl e
              | Inr raw \<Rightarrow>
                  (if py_endswith fname ''.xml'' then
                     (case parse_landxml_points (lib_et_parse lib) (lib_to_float lib) raw of
                        Inl e \<Rightarrow> Inl e
                      | Inr df \<Rightarrow>
                          Inr ([], Some (if \<not> df_empty df then reset_index df else df)))
                   else if py_endswith fname ''.dxf'' then
                     (case parse_dxf_points (lib_ezdxf lib) raw of
                        Inl e \<Rightarrow> Inl e
                      | Inr df \<Rightarrow>
                          Inr ([], Some (if \<not> df_empty df then reset_index df else df)))
                   else if py_endswith fname ''.lok'' then
                     (case parse_lok_points (lib_zip_open lib) (lib_et_parse lib) (lib_to_float lib) raw of
                        Inl e \<Rightarrow> Inl e
                      | Inr df \<Rightarrow>
                          Inr ([], Some (if \<not> df_empty df then reset_index df else df)))
                   else
                     Inr ([st_error
                            ''Unsupported design format. Please upload .xml, .dxf, or .lok''],
                          None))))"

section \<open>Plot builders\<close>

text \<open>\<^verbatim>\<open>go.Figure()\<close>: no trace, no layout setting.\<close>

definition go_Figure :: "'f figure" where
  "go_Figure = \<lparr>fig_data = [], fig_layout = []\<rparr>"

text \<open>
  A figure is the list of its traces and the layout settings made on it, each a path
  and a value. \<^verbatim>\<open>df["Easting"]\<close> is the column of that name, read from the rows.
\<close>

definition build_local_plan_view :: "'f data_frame option \<Rightarrow> 'f figure" where
  "build_local_plan_view df =
     (case df of
        None \<Rightarrow> go_Figure
      | Some d \<Rightarrow>
          if df_empty d then go_Figure
          else
            \<lparr>fig_data =
               [Scatter (map Easting (rows d)) (map Northing (rows d)) ''markers+text''
                  (map Name (rows d)) ''top center'' 8 ''Design Points''],
             fig_layout =
               [(''title'', ''Local 2D Plan View (Design Points)''),
                (''xaxis_title'', ''Easting''),
                (''yaxis_title'', ''Northing''),
                (''legend.orientation'', ''h''),
                (''yaxis.scaleanchor'', ''x''),
                (''yaxis.scaleratio'', ''1'')]\<rparr>)"

definition build_3d_orbit_view :: "'f data_frame option \<Rightarrow> 'f figure" where
  "build_3d_orbit_view df =
     (case df of
        None \<Rightarrow> go_Figure
      | Some d \<Rightarrow>
          if df_empty d then go_Figure
          else
            \<lparr>fig_data =
               [Scatter3d (map Easting (rows d)) (map Northing (rows d))
                  (map Elevation (rows d)) ''markers+text'' (map Name (rows d))
                  ''top center'' 4 ''Design Points''],
             fig_layout =
               [(''title'', ''3D Orbit View (Design Points)''),
                (''scene.xaxis_title'', ''Easting''),
                (''scene.yaxis_title'', ''Northing''),
                (''scene.zaxis_title'', ''Elevation''),
                (''scene.aspectmode'', ''data'')]\<rparr>)"

section \<open>Session and pages\<close>

text \<open>
  \<^verbatim>\<open>st.session_state\<close> with the two keys the script uses. For each key \<open>None\<close> says
  that the key is not in the session; \<open>Some None\<close> under \<^verbatim>\<open>design_points_df\<close> is the
  Python value \<^verbatim>\<open>None\<close>, \<open>Some (Some df)\<close> a table.
\<close>

record 'f session_state =
  page :: "string option"
  design_points_df :: "'f data_frame option option"

text \<open>A session that has just started holds no key.\<close>

definition new_session :: "'f session_state" where
  "new_session = \<lparr>page = None, design_points_df = None\<rparr>"

text \<open>The two \<^verbatim>\<open>if ... not in st.session_state\<close> statements at the top of the script.\<close>

definition session_init :: "'f session_state \<Rightarrow> 'f session_state" where
  "session_init s =
     (let s1 = (if page s = None then s\<lparr>page := Some ''home''\<rparr> else s)
      in if design_points_df s1 = None then s1\<lparr>design_points_df := Some None\<rparr> else s1)"

text \<open>
  \<^verbatim>\<open>page_home\<close>. The inputs of a run are the file in the uploader (\<open>None\<close> when there
  is none) and whether the button to the overview is pressed. The result is what was
  shown and the session after the run, or the exception that ended the run. Widgets that
  do not depend on the data (titles, captions, the image) are left out.
\<close>

definition page_home ::
  "'f libraries \<Rightarrow> uploaded_file option \<Rightarrow> bool \<Rightarrow> 'f session_state \<Rightarrow>
   exn + ('f ui_call list \<times> 'f session_state)" where
  "page_home lib design_file go_overview s =
     (case design_file of
        None \<Rightarrow> Inr ([], s)
      | Some f \<Rightarrow>
          (case load_design_file lib (Some f) of
             Inl e \<Rightarrow> Inl e
           | Inr (shown, df) \<Rightarrow>
               (case df of
                  None \<Rightarrow> Inr (shown, s)
                | Some d \<Rightarrow>
                    if \<not> df_empty d then
                      (let s1 = s\<lparr>design_points_df := Some (Some d)\<rparr>;
                           shown1 = shown @ [st_success ''Design data loaded.'',
                                             st_write_head (take 5 (rows d))];
                           s2 = (if go_overview then s1\<lparr>page := Some ''overview''\<rparr> else s1)
                       in Inr (shown1, s2))
                    else Inr (shown, s))))"

text \<open>
  \<^verbatim>\<open>page_overview\<close>. The inputs are the value of the radio button and whether the
  button back to the home page is pressed.
\<close>

definition session_get_df :: "'f session_state \<Rightarrow> 'f data_frame option" where
  "session_get_df s = (case design_points_df s of None \<Rightarrow> None | Some v \<Rightarrow> v)"

definition page_overview ::
  "string \<Rightarrow> bool \<Rightarrow> 'f session_state \<Rightarrow> 'f ui_call list \<times> 'f session_state" where
  "page_overview view_mode back s =
     (let df = session_get_df s;
          s1 = (if back then s\<lparr>page := Some ''home''\<rparr> else s)
      in case df of
           None \<Rightarrow>
             ([st_warning
                ''No design data loaded yet. Go back to Home and upload a design file.''],
              s1)
         | Some d \<Rightarrow>
             if df_empty d then
               ([st_warning
                  ''No design data loaded yet. Go back to Home and upload a design file.''],
                s1)
             else
               ([st_write_len (length (rows d))] @
                (if view_mode = ''Local 2D Plan''
                 then [st_plotly_chart (build_local_plan_view df)]
                 else if view_mode = ''3D Orbit''
                 then [st_plotly_chart (build_3d_orbit_view df)]
                 else []) @
                [st_dataframe d],
                s1))"

text \<open>
  One run of the script: the session initialisation, then the router at its end. The
  key \<^verbatim>\<open>page\<close> is in the session after the initialisation; reading a missing key
  raises.
\<close>

definition run_script ::
  "'f libraries \<Rightarrow> uploaded_file option \<Rightarrow> bool \<Rightarrow> string \<Rightarrow> bool \<Rightarrow> 'f session_state \<Rightarrow>
   exn + ('f ui_call list \<times> 'f session_state)" where
  "run_script lib design_file go_overview view_mode back s0 =
     (let s = session_init s0
      in case page s of
           None \<Rightarrow> Inl (OtherError ''KeyError'')
         | Some p \<Rightarrow>
             if p = ''home'' then page_home lib design_file go_overview s
             else if p = ''overview'' then Inr (page_overview view_mode back s)
             else page_home lib design_file go_overview (s\<lparr>page := Some ''home''\<rparr>))"

section \<open>Vocabulary of the properties\<close>

text \<open>
  A selected element is valid when it has at least three tokens and the first three
  convert; \<open>cg_row\<close> is the record that a valid element stands for.
\<close>

definition cg_valid :: "(string \<Rightarrow> 'f option) \<Rightarrow> element \<Rightarrow> bool" where
  "cg_valid conv cg =
     (3 \<le> length (cg_tokens cg) \<and> conv (cg_tokens cg ! 0) \<noteq> None \<and>
      conv (cg_tokens cg ! 1) \<noteq> None \<and> conv (cg_tokens cg ! 2) \<noteq> None)"

definition cg_row :: "(string \<Rightarrow> 'f option) \<Rightarrow> element \<Rightarrow> 'f point_row" where
  "cg_row conv cg =
     \<lparr>Name = elem_get cg ''name'' [], Easting = the (conv (cg_tokens cg ! 0)),
      Northing = the (conv (cg_tokens cg ! 1)),
      Elevation = the (conv (cg_tokens cg ! 2)), Source = ''LandXML''\<rparr>"

text \<open>The record of a \<^verbatim>\<open>POINT\<close> and of an \<^verbatim>\<open>INSERT\<close> entity.\<close>

definition dxf_point_row :: "'f dxf_entity \<Rightarrow> 'f point_row" where
  "dxf_point_row e =
     \<lparr>Name = ''POINT_'' @ handle e, Easting = vx (location e), Northing = vy (location e),
      Elevation = vz (location e), Source = ''DXF/POINT''\<rparr>"

definition dxf_insert_row :: "'f dxf_entity \<Rightarrow> 'f point_row" where
  "dxf_insert_row e =
     \<lparr>Name = ''BLK_'' @ block_name e @ ''_'' @ handle e, Easting = vx (insert_point e),
      Northing = vy (insert_point e), Elevation = vz (insert_point e),
      Source = ''DXF/INSERT''\<rparr>"



subsection \<open>Sample inputs\<close>

text \<open>A conversion that knows three numerals, with the values \<^verbatim>\<open>float\<close> gives them.\<close>

definition sample_float :: "string \<Rightarrow> real option" where
  "sample_float = [''100.0'' \<mapsto> 100, ''200.0'' \<mapsto> 200, ''5.5'' \<mapsto> 11 / 2]"

text \<open>
  The tree of
  \<^verbatim>\<open><LandXML><CgPoints><CgPoint name="P1">100.0 200.0 5.5</CgPoint></CgPoints></LandXML>\<close>,
  a document that declares no namespace.
\<close>

definition plain_cgpoint :: element where
  "plain_cgpoint = Element ''CgPoint'' [(''name'', ''P1'')] (Some ''100.0 200.0 5.5'') []"

definition plain_landxml :: element where
  "plain_landxml = Element ''LandXML'' [] None [Element ''CgPoints'' [] None [plain_cgpoint]]"

text \<open>
  The same document with one more element before the point:
  \<^verbatim>\<open><CgPoint name="P0">100.0 200.0</CgPoint>\<close>, which has two tokens.
\<close>

definition plain_short_cgpoint :: element where
  "plain_short_cgpoint = Element ''CgPoint'' [(''name'', ''P0'')] (Some ''100.0 200.0'') []"

definition plain_landxml_two :: element where
  "plain_landxml_two =
     Element ''LandXML'' [] None
       [Element ''CgPoints'' [] None [plain_short_cgpoint, plain_cgpoint]]"

text \<open>
  The tree of a document in the namespace \<^verbatim>\<open>urn:lx\<close> with three \<^verbatim>\<open>CgPoint\<close> elements:
  one with two tokens, one without text and one with a valid triple.
\<close>

definition short_cgpoint :: element where
  "short_cgpoint = Element ''{urn:lx}CgPoint'' [(''name'', ''P0'')] (Some ''100.0 200.0'') []"

definition empty_cgpoint :: element where
  "empty_cgpoint = Element ''{urn:lx}CgPoint'' [(''name'', ''PE'')] None []"

definition good_cgpoint :: element where
  "good_cgpoint =
     Element ''{urn:lx}CgPoint'' [(''name'', ''P1'')] (Some '' 100.0 200.0  5.5 '') []"

definition ns_landxml :: element where
  "ns_landxml =
     Element ''{urn:lx}LandXML'' [] None
       [Element ''{urn:lx}CgPoints'' [] None [short_cgpoint, empty_cgpoint, good_cgpoint]]"

definition good_row :: "real point_row" where
  "good_row = \<lparr>Name = ''P1'', Easting = 100, Northing = 200, Elevation = 11 / 2,
               Source = ''LandXML''\<rparr>"

text \<open>The tree of a document in the same namespace with two valid points.\<close>

definition q1_cgpoint :: element where
  "q1_cgpoint = Element ''{urn:lx}CgPoint'' [(''name'', ''Q1'')] (Some ''200.0 100.0 5.5'') []"

definition q2_cgpoint :: element where
  "q2_cgpoint = Element ''{urn:lx}CgPoint'' [(''name'', ''Q2'')] (Some ''5.5 5.5 5.5'') []"

definition two_landxml :: element where
  "two_landxml = Element ''{urn:lx}LandXML'' [] None [q1_cgpoint, q2_cgpoint]"



text \<open>A parser that knows four byte strings and rejects every other one.\<close>

definition sample_et_parse :: "bytes \<Rightarrow> exn + element" where
  "sample_et_parse b =
     (if b = ''ns'' then Inr ns_landxml
      else if b = ''plain'' then Inr plain_landxml
      else if b = ''plain2'' then Inr plain_landxml_two
      else if b = ''two'' then Inr two_landxml
      else Inl ParseError)"

text \<open>
  An archive with three members, two of them XML with different names, and an archive
  with two XML members of one name.
\<close>

definition sample_zip :: zip_file where
  "sample_zip =
     ZipFile [(''a.xml'', Inr ''ns''), (''notes.txt'', Inr ''text''), (''B.XML'', Inr ''two'')]"

definition dup_zip :: zip_file where
  "dup_zip = ZipFile [(''a.xml'', Inr ''ns''), (''a.xml'', Inr ''two'')]"

text \<open>
  An opener that knows the two archives, each under one byte string. The byte string
  \<open>''unsupported''\<close> stands for an archive with one member whose directory entry asks
  for version 0xFFFF of the format: the library raises \<^verbatim>\<open>NotImplementedError\<close> when it
  opens it. Every other byte string is rejected as not being a zip file.
\<close>

definition sample_zip_open :: "bytes \<Rightarrow> exn + zip_file" where
  "sample_zip_open b =
     (if b = ''zip'' then Inr sample_zip
      else if b = ''dup'' then Inr dup_zip
      else if b = ''unsupported'' then Inl (OtherError ''NotImplementedError'')
      else Inl BadZipFile)"

text \<open>The libraries of a run in which \<^verbatim>\<open>ezdxf\<close> is not installed.\<close>

definition sample_lib :: "real libraries" where
  "sample_lib =
     \<lparr>lib_et_parse = sample_et_parse, lib_to_float = sample_float,
      lib_ezdxf = None, lib_zip_open = sample_zip_open\<rparr>"

text \<open>Two uploads: a LandXML file, and a file with the same name that is not XML.\<close>

definition sample_upload :: uploaded_file where
  "sample_upload = \<lparr>uf_name = ''Site.XML'', uf_read = Inr ''ns'', uf_getvalue = Inr ''ns''\<rparr>"

definition broken_upload :: uploaded_file where
  "broken_upload =
     \<lparr>uf_name = ''Site.XML'', uf_read = Inr ''garbage'', uf_getvalue = Inr ''garbage''\<rparr>"

definition sample_table :: "real data_frame" where
  "sample_table = \<lparr>columns = point_columns, rows = [good_row]\<rparr>"

section \<open>The LandXML loop\<close>

text \<open>
  One iteration appends the record of a valid element and leaves the list alone for any
  other element, so the loop maps the valid elements to their records, in order.
\<close>

lemma cgpoint_step_valid:
  "cg_valid conv cg \<Longrightarrow> cgpoint_step conv rs cg = rs @ [cg_row conv cg]"
  by (auto simp: cg_valid_def cgpoint_step_def cg_row_def Let_def)

lemma cgpoint_step_invalid:
  "\<not> cg_valid conv cg \<Longrightarrow> cgpoint_step conv rs cg = rs"
  by (auto simp: cg_valid_def cgpoint_step_def Let_def split: option.splits)

lemma foldl_cgpoint_step:
  "foldl (cgpoint_step conv) rs es = rs @ map (cg_row conv) (filter (cg_valid conv) es)"
  by (induction es arbitrary: rs) (simp_all add: cgpoint_step_valid cgpoint_step_invalid)

lemma parse_landxml_points_rows:
  assumes "et_parse b = Inr rt"
  shows "\<exists>df. parse_landxml_points et_parse conv b = Inr df \<and> columns df = point_columns \<and>
     rows df = map (cg_row conv) (filter (cg_valid conv) (findall_CgPoint (ns_uri_of rt) rt))"
  using assms
  by (auto simp add: parse_landxml_points_def foldl_cgpoint_step Let_def pd_DataFrame_def
      pd_DataFrame_columns_def)

subsection \<open>The sample documents\<close>

lemma sample_tokens:
  "cg_tokens short_cgpoint = [''100.0'', ''200.0'']"
  "cg_tokens empty_cgpoint = []"
  "cg_tokens good_cgpoint = [''100.0'', ''200.0'', ''5.5'']"
  "cg_tokens plain_cgpoint = [''100.0'', ''200.0'', ''5.5'']"
  by (simp_all add: cg_tokens_def short_cgpoint_def empty_cgpoint_def good_cgpoint_def
      plain_cgpoint_def py_split_def py_strip_def py_isspace_def)

lemma sample_findall:
  "findall_CgPoint (ns_uri_of ns_landxml) ns_landxml =
     [short_cgpoint, empty_cgpoint, good_cgpoint]"
  by (simp add: ns_landxml_def ns_uri_of_def py_split_first_def py_strip_char_def
      findall_CgPoint_def descendants_def short_cgpoint_def empty_cgpoint_def good_cgpoint_def
      Let_def)

lemma plain_findall:
  "ns_uri_of plain_landxml = ''LandXML''" "findall_CgPoint ''LandXML'' plain_landxml = []"
  by (simp_all add: plain_landxml_def ns_uri_of_def py_split_first_def py_strip_char_def
      findall_CgPoint_def descendants_def plain_cgpoint_def Let_def)

lemma good_name: "elem_get good_cgpoint ''name'' [] = ''P1''"
  by (simp add: elem_get_def good_cgpoint_def)

lemma sample_valid:
  "\<not> cg_valid sample_float short_cgpoint" "\<not> cg_valid sample_float empty_cgpoint"
  "cg_valid sample_float good_cgpoint"
  by (simp_all add: cg_valid_def sample_tokens sample_float_def)

lemma sample_row: "cg_row sample_float good_cgpoint = good_row"
  by (simp add: cg_row_def sample_tokens sample_float_def good_row_def good_name)

lemma sample_parse:
  "parse_landxml_points sample_et_parse sample_float ''ns'' = Inr sample_table"
  by (simp add: parse_landxml_points_def sample_et_parse_def sample_findall foldl_cgpoint_step
      sample_valid sample_row sample_table_def pd_DataFrame_def)

section \<open>Skipped elements\<close>

text \<open>
  Among the elements that the search selected, one with fewer than three tokens or with a
  token that does not convert adds no row, and the loop goes on with the elements after
  it.
\<close>

lemma selected_invalid_skipped:
  assumes "et_parse xml_bytes = Inr rt"
    and "findall_CgPoint (ns_uri_of rt) rt = pre @ [bad] @ post"
    and "length (cg_tokens bad) < 3 \<or> conv (cg_tokens bad ! 0) = None \<or>
         conv (cg_tokens bad ! 1) = None \<or> conv (cg_tokens bad ! 2) = None"
  shows "\<exists>df. parse_landxml_points et_parse conv xml_bytes = Inr df \<and>
           rows df = map (cg_row conv) (filter (cg_valid conv) pre) @
                     map (cg_row conv) (filter (cg_valid conv) post) \<and>
           (\<forall>e \<in> set post. cg_valid conv e \<longrightarrow> cg_row conv e \<in> set (rows df))"
proof -
  from assms(3) have bad: "\<not> cg_valid conv bad"
    by (auto simp: cg_valid_def)
  from assms(1) parse_landxml_points_rows
    [where et_parse = et_parse and b = xml_bytes and rt = rt and conv = conv]
  obtain df where
    df: "parse_landxml_points et_parse conv xml_bytes = Inr df"
    and r: "rows df =
      map (cg_row conv) (filter (cg_valid conv) (findall_CgPoint (ns_uri_of rt) rt))"
    by blast
  have "rows df = map (cg_row conv) (filter (cg_valid conv) pre) @
                  map (cg_row conv) (filter (cg_valid conv) post)"
    using r bad by (simp add: assms(2))
  then show ?thesis using df by auto
qed

lemma plain_short_tokens: "cg_tokens plain_short_cgpoint = [''100.0'', ''200.0'']"
  by (simp add: cg_tokens_def plain_short_cgpoint_def py_split_def py_strip_def py_isspace_def)

lemma plain_valid: "cg_valid sample_float plain_cgpoint"
  by (simp add: cg_valid_def sample_tokens sample_float_def)

lemma plain_name: "elem_get plain_cgpoint ''name'' [] = ''P1''"
  by (simp add: elem_get_def plain_cgpoint_def)

lemma plain_row: "cg_row sample_float plain_cgpoint = good_row"
  by (simp add: cg_row_def sample_tokens sample_float_def good_row_def plain_name)

lemma plain_two_findall:
  "findall_CgPoint (ns_uri_of plain_landxml_two) plain_landxml_two = []"
  by (simp add: plain_landxml_two_def ns_uri_of_def py_split_first_def py_strip_char_def
      findall_CgPoint_def descendants_def plain_cgpoint_def plain_short_cgpoint_def Let_def)

text \<open>
  Claim C5 says, for every well-formed input, that an element with fewer than three
  tokens is left out and that every valid \<^verbatim>\<open>CgPoint\<close> element after it still appears. The
  document
  \<^verbatim>\<open><LandXML><CgPoints><CgPoint name="P0">100.0 200.0</CgPoint><CgPoint name="P1">100.0 200.0 5.5</CgPoint></CgPoints></LandXML>\<close>
  declares no namespace. Its first \<^verbatim>\<open>CgPoint\<close> has two tokens, its second one is valid
  and stands for the record P1; the search, qualified by the tag of the root, selects
  neither, and \<^verbatim>\<open>parse_landxml_points\<close> returns the table without rows: the valid element
  after the short one does not appear.
\<close>

theorem unqualified_landxml_loses_later_point:
  "sample_et_parse ''plain2'' = Inr plain_landxml_two \<and>
   descendants plain_landxml_two =
     [Element ''CgPoints'' [] None [plain_short_cgpoint, plain_cgpoint],
      plain_short_cgpoint, plain_cgpoint] \<and>
   length (cg_tokens plain_short_cgpoint) = 2 \<and>
   cg_valid sample_float plain_cgpoint \<and>
   cg_row sample_float plain_cgpoint = good_row \<and>
   findall_CgPoint (ns_uri_of plain_landxml_two) plain_landxml_two = [] \<and>
   parse_landxml_points sample_et_parse sample_float ''plain2'' =
     Inr \<lparr>columns = point_columns, rows = []\<rparr>"
proof -
  have a: "sample_et_parse ''plain2'' = Inr plain_landxml_two"
    by (simp add: sample_et_parse_def)
  have b: "descendants plain_landxml_two =
     [Element ''CgPoints'' [] None [plain_short_cgpoint, plain_cgpoint],
      plain_short_cgpoint, plain_cgpoint]"
    by (simp add: descendants_def plain_landxml_two_def plain_cgpoint_def
        plain_short_cgpoint_def)
  have c: "length (cg_tokens plain_short_cgpoint) = 2"
    by (simp add: plain_short_tokens)
  have f: "parse_landxml_points sample_et_parse sample_float ''plain2'' =
     Inr \<lparr>columns = point_columns, rows = []\<rparr>"
    by (simp add: parse_landxml_points_def a plain_two_findall pd_DataFrame_columns_def)
  from a b c f plain_valid plain_row plain_two_findall show ?thesis by simp
qed

text \<open>
  Claim C10. A selected element whose text is missing (\<open>None\<close>) or empty has no tokens
  and the loop body leaves the list of rows as it was. Reading the text cannot raise: the
  call returns a table whose rows are those of the valid elements before and after that
  element.
\<close>

theorem cgpoint_without_text_skipped:
  assumes "et_parse xml_bytes = Inr rt"
    and "findall_CgPoint (ns_uri_of rt) rt = pre @ [cg] @ post"
    and "etext cg = None \<or> etext cg = Some []"
  shows "cg_tokens cg = [] \<and> cgpoint_step conv rs cg = rs \<and>
         (\<exists>df. parse_landxml_points et_parse conv xml_bytes = Inr df \<and>
            rows df = map (cg_row conv) (filter (cg_valid conv) pre) @
                      map (cg_row conv) (filter (cg_valid conv) post))"
proof -
  from assms(3) have t: "cg_tokens cg = []"
    by (auto simp: cg_tokens_def py_strip_def py_split_def)
  then have nv: "\<not> cg_valid conv cg"
    by (simp add: cg_valid_def)
  from assms(1) parse_landxml_points_rows
    [where et_parse = et_parse and b = xml_bytes and rt = rt and conv = conv]
  obtain df where
    df: "parse_landxml_points et_parse conv xml_bytes = Inr df"
    and r: "rows df =
      map (cg_row conv) (filter (cg_valid conv) (findall_CgPoint (ns_uri_of rt) rt))"
    by blast
  have "rows df = map (cg_row conv) (filter (cg_valid conv) pre) @
                  map (cg_row conv) (filter (cg_valid conv) post)"
    using r nv by (simp add: assms(2))
  with t nv df show ?thesis by (simp add: cgpoint_step_invalid)
qed

theorem cgpoint_without_text_skipped_witness:
  "sample_et_parse ''ns'' = Inr ns_landxml \<and>
   findall_CgPoint (ns_uri_of ns_landxml) ns_landxml =
     [short_cgpoint] @ [empty_cgpoint] @ [good_cgpoint] \<and>
   etext empty_cgpoint = None \<and>
   cg_tokens empty_cgpoint = [] \<and>
   (\<exists>df. parse_landxml_points sample_et_parse sample_float ''ns'' = Inr df \<and>
      rows df = [good_row])"
proof -
  have a: "sample_et_parse ''ns'' = Inr ns_landxml"
    by (simp add: sample_et_parse_def)
  have b: "findall_CgPoint (ns_uri_of ns_landxml) ns_landxml =
             [short_cgpoint] @ [empty_cgpoint] @ [good_cgpoint]"
    by (simp add: sample_findall)
  have c: "etext empty_cgpoint = None"
    by (simp add: empty_cgpoint_def)
  then have c': "etext empty_cgpoint = None \<or> etext empty_cgpoint = Some []" by simp
  from a b c' cgpoint_without_text_skipped
    [where et_parse = sample_et_parse and xml_bytes = "''ns''" and rt = ns_landxml
       and pre = "[short_cgpoint]" and cg = empty_cgpoint and post = "[good_cgpoint]"
       and conv = sample_float and rs = "[]"]
  show ?thesis using a b c by (auto simp: sample_valid sample_row)
qed

section \<open>Inputs the parsers cannot read\<close>

text \<open>
  Claim C7, as amended. When opening the bytes as a zip archive raises \<^verbatim>\<open>BadZipFile\<close>,
  the library's verdict that the bytes are not a zip file, \<^verbatim>\<open>parse_lok_points\<close> returns
  the table with the five columns and no row and does not raise. When the open raises any
  other exception, \<^verbatim>\<open>parse_lok_points\<close> raises that exception.
\<close>

theorem bad_zip_file_yields_empty_table:
  "(zip_open lok_bytes = Inl BadZipFile \<longrightarrow>
      parse_lok_points zip_open et_parse conv lok_bytes =
        Inr \<lparr>columns = point_columns, rows = []\<rparr>) \<and>
   (\<forall>e. zip_open lok_bytes = Inl e \<and> e \<noteq> BadZipFile \<longrightarrow>
      parse_lok_points zip_open et_parse conv lok_bytes = Inl e)"
  by (simp add: parse_lok_points_def pd_DataFrame_columns_def)

theorem bad_zip_file_yields_empty_table_witness:
  "sample_zip_open ''garbage'' = Inl BadZipFile \<and>
   parse_lok_points sample_zip_open sample_et_parse sample_float ''garbage'' =
     Inr \<lparr>columns = point_columns, rows = []\<rparr>"
proof -
  have h: "sample_zip_open ''garbage'' = Inl BadZipFile"
    by (simp add: sample_zip_open_def)
  show ?thesis
    using h bad_zip_file_yields_empty_table
      [where zip_open = sample_zip_open and lok_bytes = "''garbage''"
         and et_parse = sample_et_parse and conv = sample_float]
    by simp
qed

text \<open>
  The claim as it was stated, for every input that is not a valid archive, fails: on
  the archive whose directory asks for a version of the format that the library does not
  support, the open raises \<^verbatim>\<open>NotImplementedError\<close>, which the handler for \<^verbatim>\<open>BadZipFile\<close>
  does not catch, and \<^verbatim>\<open>parse_lok_points\<close> raises it.
\<close>

theorem unsupported_zip_raises:
  "sample_zip_open ''unsupported'' = Inl (OtherError ''NotImplementedError'') \<and>
   parse_lok_points sample_zip_open sample_et_parse sample_float ''unsupported'' =
     Inl (OtherError ''NotImplementedError'')"
  by (simp add: parse_lok_points_def sample_zip_open_def)

text \<open>
  Claim C8. When the import of \<^verbatim>\<open>ezdxf\<close> failed, \<^verbatim>\<open>parse_dxf_points\<close> returns the table
  with the five columns and no row for every input; it does not raise.
\<close>

theorem dxf_capability_missing:
  "parse_dxf_points None dxf_bytes = Inr \<lparr>columns = point_columns, rows = []\<rparr>"
  by (simp add: parse_dxf_points_def pd_DataFrame_columns_def)

section \<open>DXF entities\<close>

text \<open>
  Lines 82 to 110 of the script, for a module with an attribute \<^verbatim>\<open>readmem\<close> that returns
  a document: the records of the points, then the records of the block references, each
  in the order of the model space.
\<close>

lemma foldl_point_step:
  "foldl point_step rs es = rs @ map dxf_point_row es"
  by (induction es arbitrary: rs) (simp_all add: point_step_def dxf_point_row_def Let_def)

lemma foldl_insert_step:
  "foldl insert_step rs es = rs @ map dxf_insert_row es"
  by (induction es arbitrary: rs) (simp_all add: insert_step_def dxf_insert_row_def Let_def)

lemma parse_dxf_points_rows:
  assumes "m ''readmem'' = Some readmem" and "readmem dxf_bytes = Inr doc"
  shows "\<exists>df. parse_dxf_points (Some m) dxf_bytes = Inr df \<and>
           columns df = point_columns \<and>
           rows df = map dxf_point_row (filter is_POINT (modelspace doc)) @
                     map dxf_insert_row (filter is_INSERT (modelspace doc))"
  using assms
  by (auto simp add: parse_dxf_points_def py_getattr_def Let_def foldl_point_step
      foldl_insert_step query_POINT_def query_INSERT_def pd_DataFrame_def
      pd_DataFrame_columns_def)

text \<open>
  Claim C4 says that a document with P points and B block references gives P + B rows.
  The script reads every document with \<^verbatim>\<open>ezdxf.readmem\<close>, and the package has no such
  function: whenever the module is there, the call at line 79 raises \<^verbatim>\<open>AttributeError\<close>
  for every input, whatever the readers of the package do, and no row is returned.
\<close>

theorem dxf_readmem_missing:
  "parse_dxf_points (Some (ezdxf_package rd rf rz)) dxf_bytes =
     Inl (OtherError ''AttributeError'')"
  by (simp add: parse_dxf_points_def py_getattr_def ezdxf_package_def)

section \<open>Malformed XML\<close>

lemma site_xml: "py_endswith (py_lower ''Site.XML'') ''.xml''"
  by (simp add: py_endswith_def py_lower_def py_lower_char_def Let_def char_of_def bit_Suc_0_iff)

text \<open>
  Claim C6. When the XML parser raises on the bytes, \<^verbatim>\<open>parse_landxml_points\<close> raises the
  same exception instead of returning a table; for an upload whose name ends in
  \<^verbatim>\<open>.xml\<close> in any case, \<^verbatim>\<open>load_design_file\<close> raises it too, and so does \<^verbatim>\<open>page_home\<close>,
  the caller of the load: neither catches it.
\<close>

theorem malformed_xml_propagates:
  assumes "lib_et_parse lib raw = Inl e"
    and "py_endswith (py_lower (uf_name f)) ''.xml''"
    and "uf_read f = Inr raw"
  shows "parse_landxml_points (lib_et_parse lib) (lib_to_float lib) raw = Inl e \<and>
         load_design_file lib (Some f) = Inl e \<and>
         page_home lib (Some f) go_overview s = Inl e"
proof -
  have p: "parse_landxml_points (lib_et_parse lib) (lib_to_float lib) raw = Inl e"
    using assms(1) by (simp add: parse_landxml_points_def)
  have l: "load_design_file lib (Some f) = Inl e"
    using assms(2,3) p by (simp add: load_design_file_def Let_def)
  have "page_home lib (Some f) go_overview s = Inl e"
    using l by (simp add: page_home_def)
  with p l show ?thesis by simp
qed

theorem malformed_xml_propagates_witness:
  "lib_et_parse sample_lib ''garbage'' = Inl ParseError \<and>
   py_endswith (py_lower (uf_name broken_upload)) ''.xml'' \<and>
   uf_read broken_upload = Inr ''garbage'' \<and>
   parse_landxml_points (lib_et_parse sample_lib) (lib_to_float sample_lib) ''garbage'' =
     Inl ParseError \<and>
   load_design_file sample_lib (Some broken_upload) = Inl ParseError \<and>
   page_home sample_lib (Some broken_upload) False new_session = Inl ParseError"
proof -
  have a: "lib_et_parse sample_lib ''garbage'' = Inl ParseError"
    by (simp add: sample_lib_def sample_et_parse_def)
  have b: "py_endswith (py_lower (uf_name broken_upload)) ''.xml''"
    by (simp add: broken_upload_def site_xml)
  have c: "uf_read broken_upload = Inr ''garbage''"
    by (simp add: broken_upload_def)
  from a b c malformed_xml_propagates
    [where lib = sample_lib and raw = "''garbage''" and e = ParseError and f = broken_upload
       and go_overview = False and s = new_session]
  show ?thesis by simp
qed

section \<open>Archives\<close>



























section \<open>The session\<close>

lemma page_home_table:
  assumes "page_home lib design_file go_overview s = Inr (out, s')"
  shows "design_points_df s' = design_points_df s \<or>
         (\<exists>shown d. load_design_file lib design_file = Inr (shown, Some d) \<and> \<not> df_empty d \<and>
            design_points_df s' = Some (Some d))"
proof (cases design_file)
  case None
  with assms show ?thesis by (simp add: page_home_def)
next
  case f: (Some f)
  show ?thesis
  proof (cases "load_design_file lib (Some f)")
    case (Inl e)
    with f assms show ?thesis by (simp add: page_home_def)
  next
    case (Inr r)
    obtain shown df where r: "r = (shown, df)" by (cases r)
    show ?thesis
    proof (cases df)
      case None
      with f Inr r assms show ?thesis by (simp add: page_home_def)
    next
      case (Some d)
      show ?thesis
      proof (cases "df_empty d")
        case True
        with f Inr r Some assms show ?thesis by (simp add: page_home_def)
      next
        case False
        with f Inr r Some assms have "design_points_df s' = Some (Some d)"
          by (auto simp: page_home_def Let_def split: if_splits)
        with f Inr r Some False show ?thesis by simp
      qed
    qed
  qed
qed

lemma sample_load:
  "load_design_file sample_lib (Some sample_upload) = Inr ([], Some sample_table)"
proof -
  have n: "py_endswith (py_lower (uf_name sample_upload)) ''.xml''"
    by (simp add: sample_upload_def site_xml)
  have e: "\<not> df_empty sample_table"
    by (simp add: df_empty_def sample_table_def point_columns_def)
  have p: "parse_landxml_points (lib_et_parse sample_lib) (lib_to_float sample_lib) ''ns'' =
           Inr sample_table"
    by (simp add: sample_lib_def sample_parse)
  have r: "uf_read sample_upload = Inr ''ns''"
    by (simp add: sample_upload_def)
  show ?thesis
    using n e p r by (simp add: load_design_file_def Let_def reset_index_def)
qed

text \<open>
  Claim C2. The session holds one value under the key of the table, a table or \<^verbatim>\<open>None\<close>.
  At session start the initialisation makes it \<^verbatim>\<open>None\<close>, and it never touches a value
  that is there. A load succeeds when \<^verbatim>\<open>load_design_file\<close> returns a table that is not
  empty, which is when \<^verbatim>\<open>page_home\<close> reports that the design data is loaded: then the
  value in the session is that table, whatever was there before. Every run of
  \<^verbatim>\<open>page_home\<close> that returns leaves the old value or puts such a newly loaded table:
  there is no other update.
\<close>

theorem session_table_replaced_wholesale:
  "session_get_df (session_init (new_session :: 'f session_state)) = None \<and>
   (design_points_df s \<noteq> None \<longrightarrow>
      design_points_df (session_init s) = design_points_df s) \<and>
   (\<forall>shown d. load_design_file lib (Some f) = Inr (shown, Some d) \<and> \<not> df_empty d \<longrightarrow>
      (\<exists>out s'. page_home lib (Some f) go_overview s = Inr (out, s') \<and>
         design_points_df s' = Some (Some d) \<and> session_get_df s' = Some d)) \<and>
   (\<forall>out s'. page_home lib design_file go_overview (s :: 'f session_state) = Inr (out, s') \<longrightarrow>
      design_points_df s' = design_points_df s \<or>
      (\<exists>shown d. load_design_file lib design_file = Inr (shown, Some d) \<and> \<not> df_empty d \<and>
         design_points_df s' = Some (Some d)))"
proof -
  have a: "session_get_df (session_init (new_session :: 'f session_state)) = None"
    by (simp add: session_get_df_def session_init_def new_session_def Let_def)
  have b: "design_points_df s \<noteq> None \<longrightarrow>
      design_points_df (session_init s) = design_points_df s"
    by (simp add: session_init_def Let_def)
  have c: "\<forall>shown d. load_design_file lib (Some f) = Inr (shown, Some d) \<and> \<not> df_empty d \<longrightarrow>
      (\<exists>out s'. page_home lib (Some f) go_overview s = Inr (out, s') \<and>
         design_points_df s' = Some (Some d) \<and> session_get_df s' = Some d)"
    by (simp add: page_home_def Let_def session_get_df_def)
  have d: "\<forall>out s'. page_home lib design_file go_overview s = Inr (out, s') \<longrightarrow>
      design_points_df s' = design_points_df s \<or>
      (\<exists>shown d. load_design_file lib design_file = Inr (shown, Some d) \<and> \<not> df_empty d \<and>
         design_points_df s' = Some (Some d))"
    using page_home_table by blast
  from a b c d show ?thesis by blast
qed

theorem session_table_replaced_wholesale_witness:
  "load_design_file sample_lib (Some sample_upload) = Inr ([], Some sample_table) \<and>
   \<not> df_empty sample_table \<and>
   design_points_df (session_init (new_session :: real session_state)) \<noteq> None \<and>
   (\<exists>out s'. page_home sample_lib (Some sample_upload) False
                (session_init (new_session :: real session_state)) = Inr (out, s') \<and>
      design_points_df s' = Some (Some sample_table))"
proof -
  have e: "\<not> df_empty sample_table"
    by (simp add: df_empty_def sample_table_def point_columns_def)
  have i: "design_points_df (session_init (new_session :: real session_state)) \<noteq> None"
    by (simp add: session_init_def new_session_def Let_def)
  from session_table_replaced_wholesale
    [where lib = sample_lib and f = sample_upload and go_overview = False
       and s = "session_init (new_session :: real session_state)"]
  have "\<forall>shown d. load_design_file sample_lib (Some sample_upload) = Inr (shown, Some d) \<and>
          \<not> df_empty d \<longrightarrow>
      (\<exists>out s'. page_home sample_lib (Some sample_upload) False
                   (session_init (new_session :: real session_state)) = Inr (out, s') \<and>
         design_points_df s' = Some (Some d) \<and> session_get_df s' = Some d)"
    by blast
  with sample_load e i show ?thesis by blast
qed

section \<open>The two views\<close>

text \<open>
  Claim C9. The plot builders take the table and return a figure; the table is held by
  the session only. A run of \<^verbatim>\<open>page_overview\<close>, in either view mode, leaves the table of
  the session as it was. What a run shows in a view mode after an earlier run in any view
  mode is what it shows without the earlier run, so rendering again, or after a switch
  of the view, gives the same figure. For no table and for an empty table both builders
  return the empty figure.
\<close>

theorem renderers_leave_table_unchanged:
  "design_points_df (snd (page_overview view_mode back (s :: 'f session_state))) =
     design_points_df s \<and>
   fst (page_overview vm2 b2 (snd (page_overview vm1 b1 s))) = fst (page_overview vm2 b2 s) \<and>
   build_local_plan_view None = (go_Figure :: 'f figure) \<and>
   build_3d_orbit_view None = (go_Figure :: 'f figure) \<and>
   (df_empty (d :: 'f data_frame) \<longrightarrow> build_local_plan_view (Some d) = go_Figure \<and>
                    build_3d_orbit_view (Some d) = go_Figure)"
proof -
  have t: "\<And>vm b. design_points_df (snd (page_overview vm b s)) = design_points_df s"
    by (simp add: page_overview_def Let_def split: option.splits)
  have g: "\<And>vm b. session_get_df (snd (page_overview vm b s)) = session_get_df s"
    using t by (simp add: session_get_df_def)
  have o: "\<And>vm b s1 s2. session_get_df s1 = session_get_df s2 \<Longrightarrow>
             fst (page_overview vm b s1) = fst (page_overview vm b s2)"
    by (simp add: page_overview_def Let_def split: option.splits)
  have i: "fst (page_overview vm2 b2 (snd (page_overview vm1 b1 s))) =
           fst (page_overview vm2 b2 s)"
    using g [of vm1 b1] by (rule o)
  show ?thesis
    using t i by (simp add: build_local_plan_view_def build_3d_orbit_view_def)
qed

theorem renderers_leave_table_unchanged_witness:
  "df_empty (pd_DataFrame_columns point_columns :: real data_frame) \<and>
   build_local_plan_view (Some (pd_DataFrame_columns point_columns :: real data_frame)) =
     go_Figure \<and>
   build_3d_orbit_view (Some (pd_DataFrame_columns point_columns :: real data_frame)) =
     go_Figure"
proof -
  have e: "df_empty (pd_DataFrame_columns point_columns :: real data_frame)"
    by (simp add: df_empty_def pd_DataFrame_columns_def)
  from renderers_leave_table_unchanged
    [where d = "pd_DataFrame_columns point_columns :: real data_frame"] e
  show ?thesis by blast
qed

section \<open>The namespace of the search\<close>

text \<open>
  The search of \<^verbatim>\<open>parse_landxml_points\<close> is qualified by what the script computes from
  the tag of the root. For a root in a namespace, \<^verbatim>\<open>{u}local\<close> with \<open>u\<close> free of braces,
  that is \<open>u\<close>, and the elements \<^verbatim>\<open>{u}CgPoint\<close> below the root are selected: when all of
  them are valid the table has one row for each, in document order.
\<close>

lemma dropWhile_absent: "c \<notin> set xs \<Longrightarrow> dropWhile (\<lambda>d. d = c) xs = xs"
  by (cases xs) auto

lemma ns_uri_of_qualified:
  assumes "tag rt = ''{'' @ u @ ''}'' @ l" "CHR ''{'' \<notin> set u" "CHR ''}'' \<notin> set u"
  shows "ns_uri_of rt = u"
proof -
  have a: "takeWhile (\<lambda>d. d \<noteq> CHR ''}'') (u @ CHR ''}'' # l) = u"
    using assms(3) by (simp add: takeWhile_append)
  have b: "takeWhile (\<lambda>d. d \<noteq> CHR ''}'') (tag rt) = CHR ''{'' # u"
    using assms(1) a by simp
  have c: "dropWhile (\<lambda>d. d = CHR ''{'') (CHR ''{'' # u) = u"
    using assms(2) by (simp add: dropWhile_absent)
  have "CHR ''{'' \<notin> set (rev u)" using assms(2) by simp
  then have d: "dropWhile (\<lambda>d. d = CHR ''{'') (rev u) = rev u"
    by (rule dropWhile_absent)
  show ?thesis
    unfolding ns_uri_of_def py_split_first_def py_strip_char_def b c d by simp
qed

lemma findall_CgPoint_plain:
  assumes "u \<noteq> []" "u \<noteq> ''*''" "CHR ''}'' \<notin> set u"
  shows "findall_CgPoint u rt = filter (\<lambda>e. tag e = ''{'' @ u @ ''}CgPoint'') (descendants rt)"
proof -
  have 1: "take 2 (''{'' @ u @ ''}CgPoint'') \<noteq> ''{}''"
    using assms by (cases u) auto
  have 2: "take 3 (''{'' @ u @ ''}CgPoint'') \<noteq> ''{*}''"
    using assms by (cases u; cases "tl u") auto
  show ?thesis using 1 2 by (simp add: findall_CgPoint_def Let_def)
qed

lemma parse_landxml_points_qualified:
  assumes "et_parse xml_bytes = Inr rt"
    and "tag rt = ''{'' @ u @ ''}'' @ l"
    and "u \<noteq> []" "u \<noteq> ''*''" "CHR ''{'' \<notin> set u" "CHR ''}'' \<notin> set u"
    and "\<forall>e \<in> set (descendants rt). tag e = ''{'' @ u @ ''}CgPoint'' \<longrightarrow> cg_valid conv e"
  shows "\<exists>df. parse_landxml_points et_parse conv xml_bytes = Inr df \<and>
           rows df = map (cg_row conv)
                       (filter (\<lambda>e. tag e = ''{'' @ u @ ''}CgPoint'') (descendants rt)) \<and>
           length (rows df) =
             length (filter (\<lambda>e. tag e = ''{'' @ u @ ''}CgPoint'') (descendants rt))"
proof -
  let ?sel = "filter (\<lambda>e. tag e = ''{'' @ u @ ''}CgPoint'') (descendants rt)"
  have ns: "ns_uri_of rt = u"
    using assms(2,5,6) by (rule ns_uri_of_qualified)
  have sel: "findall_CgPoint (ns_uri_of rt) rt = ?sel"
    unfolding ns using assms(3,4,6) by (rule findall_CgPoint_plain)
  have "filter (cg_valid conv) ?sel = ?sel"
  proof -
    have "filter (\<lambda>e. tag e = ''{'' @ u @ ''}CgPoint'' \<and> cg_valid conv e) (descendants rt) =
          ?sel"
      by (rule filter_cong) (use assms(7) in auto)
    then show ?thesis by simp
  qed
  with sel assms(1) parse_landxml_points_rows
    [where et_parse = et_parse and b = xml_bytes and rt = rt and conv = conv]
  show ?thesis by auto
qed

text \<open>
  Claim C1 says that a document with N valid \<^verbatim>\<open>CgPoint\<close> elements gives N rows, whatever
  its namespace. For a root that is in no namespace the tag has no brace, the script
  takes the whole tag for the namespace and searches for \<^verbatim>\<open>{LandXML}CgPoint\<close>, which no
  element is called. The document
  \<^verbatim>\<open><LandXML><CgPoints><CgPoint name="P1">100.0 200.0 5.5</CgPoint></CgPoints></LandXML>\<close>
  has one valid \<^verbatim>\<open>CgPoint\<close> element below its root, standing for the record of the claim,
  and \<^verbatim>\<open>parse_landxml_points\<close> returns the table without rows.
\<close>

theorem unqualified_landxml_yields_no_points:
  "sample_et_parse ''plain'' = Inr plain_landxml \<and>
   descendants plain_landxml = [Element ''CgPoints'' [] None [plain_cgpoint], plain_cgpoint] \<and>
   cg_valid sample_float plain_cgpoint \<and>
   cg_row sample_float plain_cgpoint = good_row \<and>
   ns_uri_of plain_landxml = ''LandXML'' \<and>
   findall_CgPoint (ns_uri_of plain_landxml) plain_landxml = [] \<and>
   parse_landxml_points sample_et_parse sample_float ''plain'' =
     Inr \<lparr>columns = point_columns, rows = []\<rparr>"
proof -
  have a: "sample_et_parse ''plain'' = Inr plain_landxml"
    by (simp add: sample_et_parse_def)
  have b: "descendants plain_landxml =
             [Element ''CgPoints'' [] None [plain_cgpoint], plain_cgpoint]"
    by (simp add: descendants_def plain_landxml_def plain_cgpoint_def)
  have c: "cg_valid sample_float plain_cgpoint"
    by (simp add: cg_valid_def sample_tokens sample_float_def)
  have n: "elem_get plain_cgpoint ''name'' [] = ''P1''"
    by (simp add: elem_get_def plain_cgpoint_def)
  have d: "cg_row sample_float plain_cgpoint = good_row"
    by (simp add: cg_row_def sample_tokens sample_float_def good_row_def n)
  have e: "findall_CgPoint (ns_uri_of plain_landxml) plain_landxml = []"
    by (simp add: plain_findall)
  have f: "parse_landxml_points sample_et_parse sample_float ''plain'' =
     Inr \<lparr>columns = point_columns, rows = []\<rparr>"
    by (simp add: parse_landxml_points_def a e pd_DataFrame_columns_def)
  from a b c d e f plain_findall(1) show ?thesis by simp
qed

end
